theory Spec2Isabelle
  imports Main
begin

section \<open>Notification surface (modules/tips.ts)\<close>

text \<open>
  JavaScript numbers that the program uses as indices, priorities and millisecond
  durations are modelled as \<open>int\<close>; timer handles returned by \<open>setTimeout\<close> are
  positive naturals, and \<open>0\<close> is the initial value of \<open>closeTimer\<close> (no timer yet).
\<close>

subsection \<open>Options read by the idle message player\<close>

text \<open>
  \<open>options.tips.idleTips.message\<close> is either a literal list of strings or an
  asynchronous provider function; \<open>wordTheDay\<close> is truthy when the daily-word
  provider is enabled. \<open>duration\<close> and \<open>priority\<close> may be undefined, in which case
  the defaults of \<open>showMessage\<close> apply.
\<close>

datatype idle_messages = MessageList "string list" | MessageProvider

record idle_tips_options =
  wordTheDay :: bool
  idle_message :: idle_messages
  idle_duration :: "int option"
  idle_interval :: int
  idle_priority :: "int option"

subsection \<open>Timers\<close>

text \<open>
  The two callbacks that tips.ts hands to \<open>setTimeout\<close>: the auto-hide of
  \<open>showMessage\<close> and the resumption of the idle player scheduled by \<open>notification\<close>.
\<close>

datatype timer_callback = HideTips | ResumeIdle

text \<open>
  The idle player is the timer object returned by \<open>setIntervalAsync\<close>, a function of the
  package \<open>tianjie\<close> whose source is not under src/. As with the other collaborators that
  are absent, the calls \<open>start()\<close> and \<open>stop()\<close> made on it are recorded in call order;
  when the timer invokes its callback, and what a call does to that, is left open.
\<close>

datatype idle_call = IdleStart | IdleStop

record tips =
  tips_options :: "idle_tips_options option"
  content :: string
  animationName :: string
  priority :: int
  closeTimer :: nat
  idlePlayer :: bool
  idle_calls :: "idle_call list"
  timers :: "(nat \<times> int \<times> timer_callback) list"
  lastTimerId :: nat

text \<open>
  \<open>tips_options\<close> is \<open>options.tips\<close> (\<open>None\<close> when it is falsy, in which case
  \<open>createIdleMessagePlayer\<close> returns undefined and \<open>idlePlayer\<close> is false); \<open>content\<close> is
  \<open>contentElement.innerHTML\<close>; \<open>animationName\<close> is the only style property the
  methods below write; \<open>timers\<close> are the pending timeouts of the window as
  (handle, delay, callback), and \<open>lastTimerId\<close> the last handle given out.
\<close>

definition setTimeout :: "timer_callback \<Rightarrow> int \<Rightarrow> tips \<Rightarrow> nat \<times> tips" where
  "setTimeout cb delay t =
     (let tid = Suc (lastTimerId t)
      in (tid, t\<lparr>timers := timers t @ [(tid, delay, cb)], lastTimerId := tid\<rparr>))"

definition clearTimeout :: "nat \<Rightarrow> tips \<Rightarrow> tips" where
  "clearTimeout tid t = t\<lparr>timers := filter (\<lambda>e. fst e \<noteq> tid) (timers t)\<rparr>"

definition setStyle :: "string \<Rightarrow> tips \<Rightarrow> tips" where
  "setStyle anim t = t\<lparr>animationName := anim\<rparr>"

definition setContent :: "string \<Rightarrow> tips \<Rightarrow> tips" where
  "setContent message t = t\<lparr>content := message\<rparr>"

text \<open>\<open>this.idlePlayer?.start()\<close> and \<open>this.idlePlayer?.stop()\<close>.\<close>

definition idle_start :: "tips \<Rightarrow> tips" where
  "idle_start t = (if idlePlayer t then t\<lparr>idle_calls := idle_calls t @ [IdleStart]\<rparr> else t)"

definition idle_stop :: "tips \<Rightarrow> tips" where
  "idle_stop t = (if idlePlayer t then t\<lparr>idle_calls := idle_calls t @ [IdleStop]\<rparr> else t)"

subsection \<open>showMessage, clear, notification\<close>

definition display_anim :: string where
  "display_anim = ''oml2d-display-tips,oml2d-shake-tips''"

definition hidden_anim :: string where
  "hidden_anim = ''oml2d-hidden-tips,oml2d-shake-tips''"

fun or_default :: "int \<Rightarrow> int option \<Rightarrow> int" where
  "or_default d None = d"
| "or_default d (Some x) = x"

definition showMessage :: "string \<Rightarrow> int option \<Rightarrow> int option \<Rightarrow> tips \<Rightarrow> tips" where
  "showMessage message duration prio t =
     (let d = or_default 3000 duration; p = or_default 0 prio
      in if p < priority t then t
         else
           (let t1 = t\<lparr>priority := p\<rparr>;
                t2 = (if closeTimer t1 \<noteq> 0 then clearTimeout (closeTimer t1) t1 else t1);
                t3 = setContent message t2;
                t4 = setStyle display_anim t3;
                (tid, t5) = setTimeout HideTips d t4
            in t5\<lparr>closeTimer := tid\<rparr>))"

definition clear :: "tips \<Rightarrow> tips" where
  "clear t =
     (let t1 = setStyle hidden_anim t;
          t2 = idle_stop t1;
          t3 = clearTimeout (closeTimer t2) t2
      in t3\<lparr>priority := 0\<rparr>)"

definition transitionTime :: int where
  "transitionTime = 1000"

definition notification :: "string \<Rightarrow> int option \<Rightarrow> int option \<Rightarrow> tips \<Rightarrow> tips" where
  "notification message duration prio t =
     (let d = or_default 3000 duration; p = or_default 3 prio;
          t1 = idle_stop t;
          t2 = showMessage message (Some d) (Some p) t1
      in snd (setTimeout ResumeIdle (d + transitionTime) t2))"

subsection \<open>Timer expiry\<close>

fun run_callback :: "timer_callback \<Rightarrow> tips \<Rightarrow> tips" where
  "run_callback HideTips t = (setStyle hidden_anim t)\<lparr>priority := 0\<rparr>"
| "run_callback ResumeIdle t = idle_start t"

text \<open>A pending timeout expires: it leaves the pending list and its callback runs.\<close>

definition fire :: "nat \<Rightarrow> tips \<Rightarrow> tips" where
  "fire tid t =
     (case find (\<lambda>e. fst e = tid) (timers t) of
        None \<Rightarrow> t
      | Some (_, _, cb) \<Rightarrow> run_callback cb (clearTimeout tid t))"

subsection \<open>The idle message player\<close>

text \<open>
  What the outside world returns to one run of the callback: \<open>provided\<close> is the string
  the asynchronous provider (\<open>getWordTheDay\<close> or the user's \<open>messages()\<close>) resolves to,
  \<open>picked\<close> is what \<open>getRandomArrayItem(messages || [])\<close> returns (\<open>None\<close> for undefined).
\<close>

record tick_source =
  provided :: string
  picked :: "string option"

definition resolve_message :: "idle_tips_options \<Rightarrow> tick_source \<Rightarrow> string" where
  "resolve_message opts src =
     (if wordTheDay opts then provided src
      else (case idle_message opts of
              MessageProvider \<Rightarrow> provided src
            | MessageList messages \<Rightarrow>
                (case picked src of
                   None \<Rightarrow> ''''
                 | Some m \<Rightarrow> m)))"

text \<open>
  The body of the callback given to \<open>setIntervalAsync\<close>; \<open>timer.stop()\<close> is a call on the
  idle player itself.
\<close>

definition idle_callback :: "tick_source \<Rightarrow> tips \<Rightarrow> tips" where
  "idle_callback src t =
     (case tips_options t of
        None \<Rightarrow> t
      | Some opts \<Rightarrow>
          (let message = resolve_message opts src
           in if message \<noteq> ''''
              then showMessage message (idle_duration opts) (idle_priority opts) t
              else idle_stop t))"


text \<open>
  Well-formed timer state: handles are positive and not beyond the last one given out,
  and a pending timeout is an auto-hide exactly when \<open>closeTimer\<close> names it.
\<close>

definition tips_wf :: "tips \<Rightarrow> bool" where
  "tips_wf t \<longleftrightarrow>
     closeTimer t \<le> lastTimerId t \<and>
     (\<forall>e \<in> set (timers t).
        0 < fst e \<and> fst e \<le> lastTimerId t \<and>
        (snd (snd e) = HideTips \<longleftrightarrow> fst e = closeTimer t))"

definition new_tips :: "idle_tips_options option \<Rightarrow> tips" where
  "new_tips opts =
     \<lparr>tips_options = opts, content = '''', animationName = '''', priority = 0,
      closeTimer = 0,
      idlePlayer = (opts \<noteq> None), idle_calls = [],
      timers = [], lastTimerId = 0\<rparr>"

section \<open>Orchestrator (modules/oml2d.ts)\<close>

subsection \<open>Catalog and collaborators\<close>

text \<open>A catalog entry: \<open>path\<close> is one asset path or an array of clothing variants.\<close>

datatype model_path = SinglePath string | PathList "string list"

record model_options =
  name :: string
  path :: model_path

text \<open>
  Stage, StatusBar, Models, PixiApp, Menus and Store are classes whose sources are not
  under src/; a method call on one of them is recorded as an event, in call order.
  The retry handler given to \<open>statusBar.loadingError\<close> is the closure
  \<open>() => void this.reloadModel()\<close>.
\<close>

datatype retry_action = ReloadModel

datatype event =
    StageSlideOut
  | StageSlideIn
  | StageReloadStyle
  | StatusBarOpenSwitching
  | StatusBarRest
  | StatusBarShowLoading
  | StatusBarHideLoading
  | StatusBarLoadingError retry_action
  | ModelsCreate
  | ModelsSettingModel
  | ModelsRemoveHitAreaFrames
  | ModelsAddHitAreaFrames
  | PixiAppMount
  | PixiAppResize
  | MenusReload
  | TipsReload
  | StoreUpdateModelCurrentIndex int
  | StoreUpdateModelCurrentClothesIndex int
  | StoreUpdateModelInfo
  | StageCreate
  | StageMount
  | StatusBarCreate
  | StatusBarInitializeStyle
  | StatusBarMount
  | StatusBarOpenRest
  | StatusBarSetClickEvent
  | GlobalStyleInitialize
  | CheckVersion
  | PrintProjectInfo
  | OnChangeWindowSize
  | EventsAddStageSlideIn
  | SetDocumentOnCopy

text \<open>
  Modelled from the spec: the class Store is not under src/. The spec describes it as
  "two integers (model index, clothes index) under fixed keys in a simple durable
  key-value store ... written on every successful selection change"; the fields
  \<open>store_modelIndex\<close> and \<open>store_modelClothesIndex\<close> hold the value last passed to
  \<open>updateModelCurrentIndex\<close> and \<open>updateModelCurrentClothesIndex\<close>.
\<close>

record oml2d =
  models_opt :: "model_options list"
  mobileDisplay :: bool
  currentModelIndex :: int
  currentModelClothesIndex :: int
  stage_modelIndex :: int
  models_modelIndex :: int
  models_modelClothesIndex :: int
  store_modelIndex :: int
  store_modelClothesIndex :: int
  pixiApp :: bool
  tips_state :: tips
  trace :: "event list"

text \<open>
  \<open>models_opt\<close> is \<open>options.models\<close> and \<open>mobileDisplay\<close> is \<open>options.mobileDisplay\<close>;
  \<open>pixiApp\<close> tells whether the optional field \<open>pixiApp\<close> is defined; \<open>tips_state\<close> is the
  Tips instance.

  What one run of the transition workflow reads from outside the program: whether
  \<open>getWindowSizeType()\<close> answers \<open>WindowSizeType.mobile\<close> when the run asks, and whether
  the promise of \<open>models.create()\<close> resolves or rejects.
\<close>

record run_env =
  windowIsMobile :: bool
  createResolves :: bool

definition emit :: "event \<Rightarrow> oml2d \<Rightarrow> oml2d" where
  "emit e s = s\<lparr>trace := trace s @ [e]\<rparr>"

definition on_tips :: "(tips \<Rightarrow> tips) \<Rightarrow> oml2d \<Rightarrow> oml2d" where
  "on_tips f s = s\<lparr>tips_state := f (tips_state s)\<rparr>"

subsection \<open>Hit areas\<close>

definition showModelHitAreaFrames :: "oml2d \<Rightarrow> oml2d" where
  "showModelHitAreaFrames s = emit ModelsRemoveHitAreaFrames s"

definition hideModelHitAreaFrames :: "oml2d \<Rightarrow> oml2d" where
  "hideModelHitAreaFrames s = emit ModelsAddHitAreaFrames s"

subsection \<open>Selection state and its setters\<close>

definition mobileHidden :: "run_env \<Rightarrow> oml2d \<Rightarrow> bool" where
  "mobileHidden env s \<longleftrightarrow> \<not> mobileDisplay s \<and> windowIsMobile env"

definition set_modelIndex :: "int \<Rightarrow> oml2d \<Rightarrow> oml2d" where
  "set_modelIndex index s =
     emit (StoreUpdateModelCurrentIndex index)
       (s\<lparr>currentModelIndex := index, stage_modelIndex := index,
          models_modelIndex := index, store_modelIndex := index\<rparr>)"

definition modelIndex :: "oml2d \<Rightarrow> int" where
  "modelIndex s = currentModelIndex s"

definition set_modelClothesIndex :: "int \<Rightarrow> oml2d \<Rightarrow> oml2d" where
  "set_modelClothesIndex index s =
     emit (StoreUpdateModelCurrentClothesIndex index)
       (s\<lparr>currentModelClothesIndex := index, models_modelClothesIndex := index,
          store_modelClothesIndex := index\<rparr>)"

definition modelClothesIndex :: "oml2d \<Rightarrow> int" where
  "modelClothesIndex s = currentModelClothesIndex s"

subsection \<open>The transition workflow\<close>

definition stage_slideIn :: "oml2d \<Rightarrow> oml2d" where
  "stage_slideIn s = emit StageSlideIn s"

text \<open>
  \<open>loadModel\<close>: the handler of \<open>.catch\<close> returns normally, so the promise it yields is
  fulfilled and the \<open>.then\<close> continuation chained after it runs in both cases.
\<close>

definition loadModel :: "run_env \<Rightarrow> (oml2d \<Rightarrow> oml2d) \<Rightarrow> oml2d \<Rightarrow> oml2d" where
  "loadModel env callback s =
     (let s1 = on_tips clear s;
          s2 = emit StageSlideOut s1
      in if models_opt s2 = [] then s2
         else if mobileHidden env s2 then emit StatusBarRest s2
         else
           (let s3 = emit StatusBarShowLoading s2;
                s4 = emit ModelsCreate s3;
                s5 = (if createResolves env then s4
                      else emit (StatusBarLoadingError ReloadModel) s4);
                s6 = (if pixiApp s5 then emit PixiAppMount s5 else s5);
                s7 = emit MenusReload s6;
                s8 = emit TipsReload s7;
                s9 = emit ModelsSettingModel s8;
                s10 = emit StageReloadStyle s9;
                s11 = (if pixiApp s10 then emit PixiAppResize s10 else s10);
                s12 = emit StatusBarHideLoading s11
            in callback s12))"

definition reloadModel :: "run_env \<Rightarrow> oml2d \<Rightarrow> oml2d" where
  "reloadModel env s = on_tips idle_start (loadModel env stage_slideIn s)"

fun run_retry :: "retry_action \<Rightarrow> run_env \<Rightarrow> oml2d \<Rightarrow> oml2d" where
  "run_retry ReloadModel env s = reloadModel env s"

subsection \<open>Switch operations\<close>

definition loadNextModel :: "run_env \<Rightarrow> oml2d \<Rightarrow> oml2d" where
  "loadNextModel env s =
     (let s1 = set_modelIndex (modelIndex s + 1) s;
          s2 = (if modelIndex s1 \<ge> int (length (models_opt s1))
                then set_modelIndex 0 s1 else s1);
          s3 = set_modelClothesIndex 0 s2;
          s4 = emit StatusBarOpenSwitching s3;
          s5 = loadModel env stage_slideIn s4
      in on_tips idle_start s5)"

text \<open>\<open>modelClothesIndex || 0\<close>: undefined and 0 both give 0.\<close>

fun or_zero :: "int option \<Rightarrow> int" where
  "or_zero None = 0"
| "or_zero (Some c) = (if c = 0 then 0 else c)"

definition loadModelByIndex :: "run_env \<Rightarrow> int \<Rightarrow> int option \<Rightarrow> oml2d \<Rightarrow> oml2d" where
  "loadModelByIndex env index clothes s =
     (if index \<ge> 0 \<and> index < int (length (models_opt s))
      then
        (let s1 = set_modelIndex index s;
             s2 = set_modelClothesIndex (or_zero clothes) s1;
             s3 = emit StatusBarOpenSwitching s2;
             s4 = loadModel env stage_slideIn s3
         in on_tips idle_start s4)
      else s)"

text \<open>\<open>Array.prototype.findIndex\<close>: the first position that satisfies the test, else -1.\<close>

fun findIndex :: "('a \<Rightarrow> bool) \<Rightarrow> 'a list \<Rightarrow> int" where
  "findIndex P [] = - 1"
| "findIndex P (x # xs) =
     (if P x then 0
      else (let r = findIndex P xs in if r < 0 then - 1 else r + 1))"

definition loadModelByName :: "run_env \<Rightarrow> string \<Rightarrow> int option \<Rightarrow> oml2d \<Rightarrow> oml2d" where
  "loadModelByName env modelName clothes s =
     (let targetIndex = findIndex (\<lambda>item. name item = modelName) (models_opt s)
      in if targetIndex > 0
         then
           (let s1 = set_modelIndex targetIndex s;
                s2 = set_modelClothesIndex (or_zero clothes) s1;
                s3 = emit StatusBarOpenSwitching s2;
                s4 = loadModel env stage_slideIn s3
            in on_tips idle_start s4)
         else s)"





subsection \<open>Construction\<close>







subsection \<open>A widget to run scenarios on\<close>

text \<open>
  The widget once construction has finished with stored indices 0 and 0 and \<open>create()\<close>
  has made the PixiApp; the trace starts empty here.
\<close>

definition widget :: "model_options list \<Rightarrow> bool \<Rightarrow> idle_tips_options option \<Rightarrow> oml2d" where
  "widget catalog mobile tipsopts =
     \<lparr>models_opt = catalog, mobileDisplay = mobile,
      currentModelIndex = 0, currentModelClothesIndex = 0,
      stage_modelIndex = 0, models_modelIndex = 0, models_modelClothesIndex = 0,
      store_modelIndex = 0, store_modelClothesIndex = 0,
      pixiApp = True, tips_state = new_tips tipsopts, trace = []\<rparr>"

definition desktop_ok :: run_env where
  "desktop_ok = \<lparr>windowIsMobile = False, createResolves = True\<rparr>"

definition desktop_fail :: run_env where
  "desktop_fail = \<lparr>windowIsMobile = False, createResolves = False\<rparr>"

definition mobile_ok :: run_env where
  "mobile_ok = \<lparr>windowIsMobile = True, createResolves = True\<rparr>"

definition model_A :: model_options where
  "model_A = \<lparr>name = ''A'', path = SinglePath ''a.model''\<rparr>"

definition model_B :: model_options where
  "model_B = \<lparr>name = ''B'', path = PathList [''b1.model'', ''b2.model'']\<rparr>"

text \<open>
  The collaborator calls of one load attempt, from the loading indicator to its hiding,
  as \<open>loadModel\<close> issues them when the catalog is not empty and the widget is not
  mobile-hidden.
\<close>

definition load_events :: "run_env \<Rightarrow> bool \<Rightarrow> event list" where
  "load_events env pixi =
     [StatusBarShowLoading, ModelsCreate] @
     (if createResolves env then [] else [StatusBarLoadingError ReloadModel]) @
     (if pixi then [PixiAppMount] else []) @
     [MenusReload, TipsReload, ModelsSettingModel, StageReloadStyle] @
     (if pixi then [PixiAppResize] else []) @
     [StatusBarHideLoading]"




fun written_clothesIndex :: "event list \<Rightarrow> int list" where
  "written_clothesIndex [] = []"
| "written_clothesIndex (StoreUpdateModelCurrentClothesIndex i # es) = i # written_clothesIndex es"
| "written_clothesIndex (_ # es) = written_clothesIndex es"



section \<open>Properties of the notification surface\<close>

lemma showMessage_rejected:
  "p < priority t \<Longrightarrow> showMessage m (Some d) (Some p) t = t"
  by (simp add: showMessage_def)

lemma showMessage_accepted:
  "\<not> p < priority t \<Longrightarrow>
   showMessage m (Some d) (Some p) t =
     t\<lparr>content := m, animationName := display_anim, priority := p,
       closeTimer := Suc (lastTimerId t),
       timers := (if closeTimer t \<noteq> 0 then filter (\<lambda>e. fst e \<noteq> closeTimer t) (timers t)
                  else timers t) @ [(Suc (lastTimerId t), d, HideTips)],
       lastTimerId := Suc (lastTimerId t)\<rparr>"
  by (simp add: showMessage_def setTimeout_def clearTimeout_def setContent_def setStyle_def Let_def)

lemma showMessage_defaults:
  "showMessage m d p t = showMessage m (Some (or_default 3000 d)) (Some (or_default 0 p)) t"
  by (simp add: showMessage_def)

text \<open>In a well-formed state, clearing \<open>closeTimer\<close> removes exactly the auto-hide timeouts.\<close>

lemma wf_uncancelled:
  assumes "tips_wf t"
  shows "(if closeTimer t \<noteq> 0 then filter (\<lambda>e. fst e \<noteq> closeTimer t) (timers t) else timers t)
     = filter (\<lambda>e. snd (snd e) \<noteq> HideTips) (timers t)"
proof (cases "closeTimer t = 0")
  case True
  with assms have "\<forall>e \<in> set (timers t). snd (snd e) \<noteq> HideTips"
    unfolding tips_wf_def by fastforce
  with True show ?thesis by simp
next
  case False
  from assms have "\<forall>e \<in> set (timers t). (fst e \<noteq> closeTimer t) = (snd (snd e) \<noteq> HideTips)"
    unfolding tips_wf_def by blast
  then have "filter (\<lambda>e. fst e \<noteq> closeTimer t) (timers t)
      = filter (\<lambda>e. snd (snd e) \<noteq> HideTips) (timers t)"
    by (intro filter_cong) auto
  with False show ?thesis by simp
qed

lemma find_fresh:
  "\<forall>e \<in> set xs. fst e \<noteq> k \<Longrightarrow> find (\<lambda>e. fst e = k) (xs @ [(k, d, cb)]) = Some (k, d, cb)"
  by (induction xs) auto

lemma wf_handles_used:
  "tips_wf t \<Longrightarrow> \<forall>e \<in> set (timers t). fst e \<noteq> Suc (lastTimerId t)"
  unfolding tips_wf_def by fastforce

subsection \<open>Well-formedness is an invariant of the Tips methods\<close>

lemma new_tips_wf: "tips_wf (new_tips opts)"
  by (simp add: tips_wf_def new_tips_def)

lemma showMessage_wf:
  assumes "tips_wf t"
  shows "tips_wf (showMessage m d p t)"
proof (cases "or_default 0 p < priority t")
  case True
  with assms show ?thesis by (simp add: showMessage_def)
next
  case False
  show ?thesis
    unfolding showMessage_defaults[of m d p t] showMessage_accepted[OF False]
      wf_uncancelled[OF assms]
    using assms unfolding tips_wf_def by auto
qed

lemma idle_start_wf: "tips_wf t \<Longrightarrow> tips_wf (idle_start t)"
  by (simp add: tips_wf_def idle_start_def)

lemma idle_stop_wf: "tips_wf t \<Longrightarrow> tips_wf (idle_stop t)"
  by (simp add: tips_wf_def idle_stop_def)

lemma clearTimeout_wf: "tips_wf t \<Longrightarrow> tips_wf (clearTimeout tid t)"
  by (simp add: tips_wf_def clearTimeout_def)

lemma setStyle_wf: "tips_wf t \<Longrightarrow> tips_wf (setStyle anim t)"
  by (simp add: tips_wf_def setStyle_def)

lemma clear_wf:
  assumes "tips_wf t"
  shows "tips_wf (clear t)"
proof -
  let ?t2 = "idle_stop (setStyle hidden_anim t)"
  have "tips_wf (clearTimeout (closeTimer ?t2) ?t2)"
    using assms by (intro clearTimeout_wf idle_stop_wf setStyle_wf)
  then have "tips_wf ((clearTimeout (closeTimer ?t2) ?t2)\<lparr>priority := 0\<rparr>)"
    by (simp add: tips_wf_def)
  then show ?thesis by (simp add: clear_def Let_def)
qed

lemma notification_wf:
  assumes "tips_wf t"
  shows "tips_wf (notification m d p t)"
proof -
  have "tips_wf (showMessage m (Some (or_default 3000 d)) (Some (or_default 3 p)) (idle_stop t))"
    using assms by (intro showMessage_wf idle_stop_wf)
  then show ?thesis
    unfolding notification_def Let_def setTimeout_def tips_wf_def by auto
qed

lemma fire_wf:
  assumes "tips_wf t"
  shows "tips_wf (fire tid t)"
proof (cases "find (\<lambda>e. fst e = tid) (timers t)")
  case None
  with assms show ?thesis by (simp add: fire_def)
next
  case (Some e)
  obtain i d cb where e: "e = (i, d, cb)" by (cases e)
  have "tips_wf (run_callback cb (clearTimeout tid t))"
    using clearTimeout_wf[OF assms, of tid]
    by (cases cb) (simp_all add: tips_wf_def setStyle_def idle_start_def)
  with Some e show ?thesis by (simp add: fire_def)
qed

lemma idle_callback_wf: "tips_wf t \<Longrightarrow> tips_wf (idle_callback src t)"
  by (auto simp: idle_callback_def Let_def showMessage_wf idle_stop_wf split: option.splits)

text \<open>
  C3. For every call \<open>showMessage(message, duration, priority)\<close> on a well-formed
  notification surface: when \<open>priority < this.priority\<close> the call changes nothing (content,
  priority and pending timeouts are as before); otherwise the content is the message, the
  priority is the given one, every earlier auto-hide timeout has been cancelled so that
  the only pending one is the new timeout with delay \<open>duration\<close> (the other pending
  timeouts are untouched), and when that timeout expires the priority is back at 0 and
  the hide animation is set.
\<close>

theorem showMessage_priority_gate:
  assumes "tips_wf t"
  shows "(p < priority t \<longrightarrow> showMessage m (Some d) (Some p) t = t) \<and>
         (\<not> p < priority t \<longrightarrow>
            content (showMessage m (Some d) (Some p) t) = m \<and>
            priority (showMessage m (Some d) (Some p) t) = p \<and>
            animationName (showMessage m (Some d) (Some p) t) = display_anim \<and>
            filter (\<lambda>e. snd (snd e) = HideTips) (timers (showMessage m (Some d) (Some p) t))
              = [(closeTimer (showMessage m (Some d) (Some p) t), d, HideTips)] \<and>
            filter (\<lambda>e. snd (snd e) \<noteq> HideTips) (timers (showMessage m (Some d) (Some p) t))
              = filter (\<lambda>e. snd (snd e) \<noteq> HideTips) (timers t) \<and>
            priority (fire (closeTimer (showMessage m (Some d) (Some p) t))
                        (showMessage m (Some d) (Some p) t)) = 0 \<and>
            animationName (fire (closeTimer (showMessage m (Some d) (Some p) t))
                             (showMessage m (Some d) (Some p) t)) = hidden_anim)"
proof (intro conjI impI)
  assume "p < priority t"
  then show "showMessage m (Some d) (Some p) t = t" by (rule showMessage_rejected)
next
  assume acc: "\<not> p < priority t"
  let ?t = "showMessage m (Some d) (Some p) t"
  let ?kept = "filter (\<lambda>e. snd (snd e) \<noteq> HideTips) (timers t)"
  have shape: "?t = t\<lparr>content := m, animationName := display_anim, priority := p,
       closeTimer := Suc (lastTimerId t),
       timers := ?kept @ [(Suc (lastTimerId t), d, HideTips)],
       lastTimerId := Suc (lastTimerId t)\<rparr>"
    unfolding showMessage_accepted[OF acc] wf_uncancelled[OF assms] ..
  show "content ?t = m" "priority ?t = p" "animationName ?t = display_anim"
    by (simp_all add: shape)
  show "filter (\<lambda>e. snd (snd e) = HideTips) (timers ?t) = [(closeTimer ?t, d, HideTips)]"
    by (simp add: shape)
  show "filter (\<lambda>e. snd (snd e) \<noteq> HideTips) (timers ?t) = ?kept"
    by (simp add: shape)
  have "\<forall>e \<in> set ?kept. fst e \<noteq> Suc (lastTimerId t)"
    using wf_handles_used[OF assms] by simp
  then have found: "find (\<lambda>e. fst e = Suc (lastTimerId t)) (?kept @ [(Suc (lastTimerId t), d, HideTips)])
      = Some (Suc (lastTimerId t), d, HideTips)"
    by (rule find_fresh)
  have fired: "fire (closeTimer ?t) ?t
      = run_callback HideTips (clearTimeout (Suc (lastTimerId t)) ?t)"
    unfolding fire_def by (simp add: shape found del: find.simps)
  show "priority (fire (closeTimer ?t) ?t) = 0"
    unfolding fired by (simp add: setStyle_def)
  show "animationName (fire (closeTimer ?t) ?t) = hidden_anim"
    unfolding fired by (simp add: setStyle_def)
qed

theorem showMessage_priority_gate_witness:
  "tips_wf (showMessage ''hello'' (Some 3000) (Some 2) (new_tips None)) \<and>
   showMessage ''low'' (Some 500) (Some 1) (showMessage ''hello'' (Some 3000) (Some 2) (new_tips None))
     = showMessage ''hello'' (Some 3000) (Some 2) (new_tips None) \<and>
   content (showMessage ''high'' (Some 500) (Some 3)
              (showMessage ''hello'' (Some 3000) (Some 2) (new_tips None))) = ''high'' \<and>
   timers (showMessage ''high'' (Some 500) (Some 3)
              (showMessage ''hello'' (Some 3000) (Some 2) (new_tips None))) = [(2, 500, HideTips)]"
proof -
  let ?t = "showMessage ''hello'' (Some 3000) (Some 2) (new_tips None)"
  have wf: "tips_wf ?t" by (intro showMessage_wf new_tips_wf)
  have prio: "priority ?t = 2"
    by (simp add: showMessage_def new_tips_def setTimeout_def setContent_def setStyle_def)
  have tm: "timers (showMessage ''high'' (Some 500) (Some 3) ?t) = [(2, 500, HideTips)]"
    by (simp add: showMessage_def new_tips_def setTimeout_def setContent_def setStyle_def
        clearTimeout_def)
  from showMessage_priority_gate[OF wf, of 1 "''low''" 500]
    showMessage_priority_gate[OF wf, of 3 "''high''" 500] prio wf tm
  show ?thesis by simp
qed

section \<open>Properties of the orchestrator\<close>

subsection \<open>The three outcomes of the transition workflow\<close>

lemma loadModel_empty:
  "models_opt s = [] \<Longrightarrow>
   loadModel env callback s = (on_tips clear s)\<lparr>trace := trace s @ [StageSlideOut]\<rparr>"
  by (simp add: loadModel_def Let_def emit_def on_tips_def)

lemma loadModel_mobileHidden:
  "models_opt s \<noteq> [] \<Longrightarrow> mobileHidden env s \<Longrightarrow>
   loadModel env callback s =
     (on_tips clear s)\<lparr>trace := trace s @ [StageSlideOut, StatusBarRest]\<rparr>"
  by (simp add: loadModel_def Let_def emit_def on_tips_def mobileHidden_def)

lemma loadModel_loads:
  "models_opt s \<noteq> [] \<Longrightarrow> \<not> mobileHidden env s \<Longrightarrow>
   loadModel env callback s =
     callback ((on_tips clear s)\<lparr>trace := trace s @ StageSlideOut # load_events env (pixiApp s)\<rparr>)"
  by (auto simp add: loadModel_def Let_def emit_def on_tips_def mobileHidden_def load_events_def)

text \<open>With the slide-in callback the workflow touches only the tips and the trace.\<close>

lemma loadModel_slideIn_frame:
  "\<exists>t es. loadModel env stage_slideIn s = s\<lparr>tips_state := t, trace := trace s @ es\<rparr>"
proof (cases "models_opt s = []")
  case True
  then show ?thesis by (simp add: loadModel_empty on_tips_def) blast
next
  case ne: False
  show ?thesis
  proof (cases "mobileHidden env s")
    case True
    with ne show ?thesis by (simp add: loadModel_mobileHidden on_tips_def) blast
  next
    case False
    with ne show ?thesis
      by (simp add: loadModel_loads on_tips_def stage_slideIn_def emit_def) blast
  qed
qed

text \<open>
  The tail shared by the switch operations: open the status bar, run the workflow,
  start the idle player. It leaves the selection, its mirrors and the options alone.
\<close>

lemma switch_tail_frame:
  "\<exists>t es. on_tips idle_start (loadModel env stage_slideIn (emit StatusBarOpenSwitching s))
            = s\<lparr>tips_state := t, trace := trace s @ es\<rparr>"
proof -
  obtain t es where
    "loadModel env stage_slideIn (emit StatusBarOpenSwitching s)
       = (emit StatusBarOpenSwitching s)\<lparr>tips_state := t,
            trace := trace (emit StatusBarOpenSwitching s) @ es\<rparr>"
    using loadModel_slideIn_frame by blast
  then have "on_tips idle_start (loadModel env stage_slideIn (emit StatusBarOpenSwitching s))
       = s\<lparr>tips_state := idle_start t, trace := trace s @ StatusBarOpenSwitching # es\<rparr>"
    by (simp add: on_tips_def emit_def)
  then show ?thesis by blast
qed

lemma set_modelIndex_fields [simp]:
  "currentModelIndex (set_modelIndex i s) = i"
  "stage_modelIndex (set_modelIndex i s) = i"
  "models_modelIndex (set_modelIndex i s) = i"
  "store_modelIndex (set_modelIndex i s) = i"
  "currentModelClothesIndex (set_modelIndex i s) = currentModelClothesIndex s"
  "models_modelClothesIndex (set_modelIndex i s) = models_modelClothesIndex s"
  "store_modelClothesIndex (set_modelIndex i s) = store_modelClothesIndex s"
  "models_opt (set_modelIndex i s) = models_opt s"
  "trace (set_modelIndex i s) = trace s @ [StoreUpdateModelCurrentIndex i]"
  by (simp_all add: set_modelIndex_def emit_def)

lemma set_modelClothesIndex_fields [simp]:
  "currentModelClothesIndex (set_modelClothesIndex i s) = i"
  "models_modelClothesIndex (set_modelClothesIndex i s) = i"
  "store_modelClothesIndex (set_modelClothesIndex i s) = i"
  "currentModelIndex (set_modelClothesIndex i s) = currentModelIndex s"
  "stage_modelIndex (set_modelClothesIndex i s) = stage_modelIndex s"
  "models_modelIndex (set_modelClothesIndex i s) = models_modelIndex s"
  "store_modelIndex (set_modelClothesIndex i s) = store_modelIndex s"
  "models_opt (set_modelClothesIndex i s) = models_opt s"
  "trace (set_modelClothesIndex i s) = trace s @ [StoreUpdateModelCurrentClothesIndex i]"
  by (simp_all add: set_modelClothesIndex_def emit_def)

text \<open>What \<open>loadModelByIndex\<close> leaves behind for an index within the catalog.\<close>

lemma loadModelByIndex_accepted:
  assumes "0 \<le> i" "i < int (length (models_opt s))"
  shows "\<exists>t es. loadModelByIndex env i c s =
     s\<lparr>currentModelIndex := i, stage_modelIndex := i, models_modelIndex := i,
       store_modelIndex := i, currentModelClothesIndex := or_zero c,
       models_modelClothesIndex := or_zero c, store_modelClothesIndex := or_zero c,
       tips_state := t,
       trace := trace s @ StoreUpdateModelCurrentIndex i
                  # StoreUpdateModelCurrentClothesIndex (or_zero c) # es\<rparr>"
proof -
  let ?s2 = "set_modelClothesIndex (or_zero c) (set_modelIndex i s)"
  obtain t es where
    "on_tips idle_start (loadModel env stage_slideIn (emit StatusBarOpenSwitching ?s2))
       = ?s2\<lparr>tips_state := t, trace := trace ?s2 @ es\<rparr>"
    using switch_tail_frame by blast
  with assms have "loadModelByIndex env i c s = ?s2\<lparr>tips_state := t, trace := trace ?s2 @ es\<rparr>"
    by (simp add: loadModelByIndex_def Let_def)
  then show ?thesis
    by (simp add: set_modelIndex_def set_modelClothesIndex_def emit_def) blast
qed

lemma loadModelByIndex_rejected:
  "i < 0 \<or> int (length (models_opt s)) \<le> i \<Longrightarrow> loadModelByIndex env i c s = s"
  by (auto simp: loadModelByIndex_def)

text \<open>What \<open>loadNextModel\<close> leaves behind.\<close>

lemma loadNextModel_result:
  "\<exists>t es. loadNextModel env s =
     (let n = (if modelIndex s + 1 \<ge> int (length (models_opt s)) then 0 else modelIndex s + 1)
      in s\<lparr>currentModelIndex := n, stage_modelIndex := n, models_modelIndex := n,
           store_modelIndex := n, currentModelClothesIndex := 0,
           models_modelClothesIndex := 0, store_modelClothesIndex := 0,
           tips_state := t,
           trace := trace s @ StoreUpdateModelCurrentIndex (modelIndex s + 1) # es\<rparr>)"
proof -
  let ?s1 = "set_modelIndex (modelIndex s + 1) s"
  let ?s2 = "if modelIndex ?s1 \<ge> int (length (models_opt ?s1)) then set_modelIndex 0 ?s1 else ?s1"
  let ?s3 = "set_modelClothesIndex 0 ?s2"
  obtain t es where
    "on_tips idle_start (loadModel env stage_slideIn (emit StatusBarOpenSwitching ?s3))
       = ?s3\<lparr>tips_state := t, trace := trace ?s3 @ es\<rparr>"
    using switch_tail_frame by blast
  then have "loadNextModel env s = ?s3\<lparr>tips_state := t, trace := trace ?s3 @ es\<rparr>"
    by (simp add: loadNextModel_def Let_def)
  then show ?thesis
    by (auto simp: set_modelIndex_def set_modelClothesIndex_def emit_def modelIndex_def Let_def)
qed

subsection \<open>Hit areas\<close>

text \<open>
  C10. \<open>showModelHitAreaFrames()\<close> calls \<open>models.removeHitAreaFrames()\<close> and
  \<open>hideModelHitAreaFrames()\<close> calls \<open>models.addHitAreaFrames()\<close>; each is the only call
  made and nothing else changes.
\<close>

theorem hit_area_operations_delegate:
  "showModelHitAreaFrames s = s\<lparr>trace := trace s @ [ModelsRemoveHitAreaFrames]\<rparr> \<and>
   hideModelHitAreaFrames s = s\<lparr>trace := trace s @ [ModelsAddHitAreaFrames]\<rparr>"
  by (simp add: showModelHitAreaFrames_def hideModelHitAreaFrames_def emit_def)

subsection \<open>Switching by index\<close>

text \<open>
  C5. For every index outside the catalog (negative, or at least the catalog length),
  \<open>loadModelByIndex\<close> returns the widget exactly as it was: model index and clothes index
  with their mirrors and stored copies are unchanged, no collaborator is called (so no
  workflow runs), and the operation has no failing outcome.
\<close>

theorem loadModelByIndex_out_of_range:
  assumes "index < 0 \<or> index \<ge> int (length (models_opt s))"
  shows "loadModelByIndex env index clothes s = s \<and>
         modelIndex (loadModelByIndex env index clothes s) = modelIndex s \<and>
         modelClothesIndex (loadModelByIndex env index clothes s) = modelClothesIndex s \<and>
         store_modelIndex (loadModelByIndex env index clothes s) = store_modelIndex s \<and>
         store_modelClothesIndex (loadModelByIndex env index clothes s) = store_modelClothesIndex s \<and>
         trace (loadModelByIndex env index clothes s) = trace s"
  using assms by (simp add: loadModelByIndex_rejected)

theorem loadModelByIndex_out_of_range_witness:
  "loadModelByIndex desktop_ok 2 None (widget [model_A, model_B] True None)
     = widget [model_A, model_B] True None \<and>
   loadModelByIndex desktop_ok (- 1) (Some 1) (widget [model_A, model_B] True None)
     = widget [model_A, model_B] True None"
  using loadModelByIndex_out_of_range[of 2 "widget [model_A, model_B] True None" desktop_ok None]
    loadModelByIndex_out_of_range[of "- 1" "widget [model_A, model_B] True None" desktop_ok "Some 1"]
  by (simp add: widget_def)

text \<open>
  C6. For every index within the catalog, \<open>loadModelByIndex\<close> leaves the model index and
  its stored copy at exactly that index; without a clothes index argument the clothes
  index and its stored copy are 0, and with one they are that argument.
\<close>

theorem loadModelByIndex_in_range:
  assumes "0 \<le> index" "index < int (length (models_opt s))"
  shows "modelIndex (loadModelByIndex env index None s) = index \<and>
         store_modelIndex (loadModelByIndex env index None s) = index \<and>
         modelClothesIndex (loadModelByIndex env index None s) = 0 \<and>
         store_modelClothesIndex (loadModelByIndex env index None s) = 0 \<and>
         modelIndex (loadModelByIndex env index (Some c) s) = index \<and>
         store_modelIndex (loadModelByIndex env index (Some c) s) = index \<and>
         modelClothesIndex (loadModelByIndex env index (Some c) s) = c \<and>
         store_modelClothesIndex (loadModelByIndex env index (Some c) s) = c"
proof -
  obtain t es where "loadModelByIndex env index None s =
     s\<lparr>currentModelIndex := index, stage_modelIndex := index, models_modelIndex := index,
       store_modelIndex := index, currentModelClothesIndex := or_zero None,
       models_modelClothesIndex := or_zero None, store_modelClothesIndex := or_zero None,
       tips_state := t,
       trace := trace s @ StoreUpdateModelCurrentIndex index
                  # StoreUpdateModelCurrentClothesIndex (or_zero None) # es\<rparr>"
    using loadModelByIndex_accepted[OF assms] by blast
  moreover obtain t' es' where "loadModelByIndex env index (Some c) s =
     s\<lparr>currentModelIndex := index, stage_modelIndex := index, models_modelIndex := index,
       store_modelIndex := index, currentModelClothesIndex := or_zero (Some c),
       models_modelClothesIndex := or_zero (Some c), store_modelClothesIndex := or_zero (Some c),
       tips_state := t',
       trace := trace s @ StoreUpdateModelCurrentIndex index
                  # StoreUpdateModelCurrentClothesIndex (or_zero (Some c)) # es'\<rparr>"
    using loadModelByIndex_accepted[OF assms] by blast
  ultimately show ?thesis
    by (simp add: modelIndex_def modelClothesIndex_def)
qed

theorem loadModelByIndex_in_range_witness:
  "store_modelIndex (loadModelByIndex desktop_ok 1 None (widget [model_A, model_B] True None)) = 1 \<and>
   store_modelClothesIndex
     (loadModelByIndex desktop_ok 1 None (widget [model_A, model_B] True None)) = 0 \<and>
   store_modelClothesIndex
     (loadModelByIndex desktop_ok 1 (Some 1) (widget [model_A, model_B] True None)) = 1"
  using loadModelByIndex_in_range[of 1 "widget [model_A, model_B] True None" desktop_ok 1]
  by (simp add: widget_def)

subsection \<open>Switching to the next model\<close>

lemma loadNextModel_step:
  "modelIndex (loadNextModel e u) =
     (if modelIndex u + 1 \<ge> int (length (models_opt u)) then 0 else modelIndex u + 1) \<and>
   store_modelIndex (loadNextModel e u) = modelIndex (loadNextModel e u) \<and>
   models_opt (loadNextModel e u) = models_opt u"
proof -
  obtain t es where "loadNextModel e u =
     (let n = (if modelIndex u + 1 \<ge> int (length (models_opt u)) then 0 else modelIndex u + 1)
      in u\<lparr>currentModelIndex := n, stage_modelIndex := n, models_modelIndex := n,
           store_modelIndex := n, currentModelClothesIndex := 0,
           models_modelClothesIndex := 0, store_modelClothesIndex := 0,
           tips_state := t,
           trace := trace u @ StoreUpdateModelCurrentIndex (modelIndex u + 1) # es\<rparr>)"
    using loadNextModel_result by blast
  then show ?thesis by (simp add: modelIndex_def Let_def)
qed

text \<open>
  C7. For every catalog and every current index within it (so the catalog is not empty),
  \<open>loadNextModel\<close> leaves the model index, and its stored copy, at
  \<open>(current + 1) mod catalog.length\<close>; from the last index it goes to 0; and on a catalog
  of two models, starting at index 0, two calls in a row end at index 0 again.
\<close>

theorem loadNextModel_cycles:
  assumes "0 \<le> modelIndex s" "modelIndex s < int (length (models_opt s))"
  shows "modelIndex (loadNextModel env s) = (modelIndex s + 1) mod int (length (models_opt s)) \<and>
         store_modelIndex (loadNextModel env s)
           = (modelIndex s + 1) mod int (length (models_opt s)) \<and>
         (modelIndex s = int (length (models_opt s)) - 1 \<longrightarrow> modelIndex (loadNextModel env s) = 0) \<and>
         (length (models_opt s) = 2 \<and> modelIndex s = 0 \<longrightarrow>
            modelIndex (loadNextModel env (loadNextModel env' s)) = 0)"
proof -
  note step = loadNextModel_step
  have wrap: "(if i + 1 \<ge> n then 0 else i + 1) = (i + 1) mod n" if "0 \<le> i" "i < n" for i n :: int
  proof (cases "i + 1 \<ge> n")
    case True
    with that have "i + 1 = n" by simp
    with True show ?thesis by simp
  next
    case False
    with that show ?thesis by (simp add: mod_pos_pos_trivial)
  qed
  show ?thesis
  proof (intro conjI impI)
    show "modelIndex (loadNextModel env s) = (modelIndex s + 1) mod int (length (models_opt s))"
      using step[of env s] wrap[OF assms] by simp
    then show "store_modelIndex (loadNextModel env s)
        = (modelIndex s + 1) mod int (length (models_opt s))"
      using step[of env s] by simp
    show "modelIndex (loadNextModel env s) = 0"
      if "modelIndex s = int (length (models_opt s)) - 1"
      using step[of env s] that by simp
    show "modelIndex (loadNextModel env (loadNextModel env' s)) = 0"
      if "length (models_opt s) = 2 \<and> modelIndex s = 0"
      using step[of env' s] step[of env "loadNextModel env' s"] that by simp
  qed
qed

theorem loadNextModel_cycles_witness:
  "modelIndex (loadNextModel desktop_ok (widget [model_A, model_B] True None)) = 1 \<and>
   modelIndex (loadNextModel desktop_ok
                 (loadNextModel desktop_ok (widget [model_A, model_B] True None))) = 0"
  using loadNextModel_cycles[of "widget [model_A, model_B] True None" desktop_ok desktop_ok]
  by (simp add: widget_def modelIndex_def)

subsection \<open>Switching by name\<close>

lemmas scenario_defs =
  widget_def new_tips_def model_A_def model_B_def desktop_ok_def desktop_fail_def mobile_ok_def
  loadModel_def reloadModel_def mobileHidden_def emit_def on_tips_def stage_slideIn_def
  set_modelIndex_def set_modelClothesIndex_def modelIndex_def modelClothesIndex_def
  clear_def idle_start_def idle_stop_def clearTimeout_def setStyle_def Let_def

text \<open>
  C1, evaluated. With the catalog \<open>[{name: "A", path: "a.model"}]\<close> the call
  \<open>loadModelByName("A")\<close> finds index 0 and the guard \<open>targetIndex > 0\<close> rejects it:
  the widget is returned as it was, with an empty trace (no exit, load or enter). On a
  two-model catalog standing at index 1, asking for \<open>"A"\<close> leaves the index at 1, while
  \<open>loadModelByIndex(0)\<close> in the same state selects index 0.
\<close>

theorem loadModelByName_first_entry_ignored:
  "loadModelByName desktop_ok ''A'' None (widget [model_A] True None) = widget [model_A] True None \<and>
   trace (loadModelByName desktop_ok ''A'' None (widget [model_A] True None)) = [] \<and>
   store_modelIndex (loadModelByName desktop_ok ''A'' None
      (loadModelByIndex desktop_ok 1 None (widget [model_A, model_B] True None))) = 1 \<and>
   store_modelIndex (loadModelByIndex desktop_ok 0 None
      (loadModelByIndex desktop_ok 1 None (widget [model_A, model_B] True None))) = 0"
  by (simp add: loadModelByName_def loadModelByIndex_def scenario_defs)

subsection \<open>A rejected asset load\<close>

text \<open>
  C2, evaluated. On a one-model widget whose asset load is rejected, the workflow calls
  \<open>statusBar.loadingError\<close> with the reload closure and then carries on with the whole
  continuation: mount, menu and tips re-attachment, model settings, stage resize, renderer
  resize, \<open>hideLoading\<close>, and the completion callback, which slides the stage in.
  Running the retry closure afterwards goes through the workflow again from the exit
  transition.
\<close>

theorem loadModel_rejected_load_continues:
  "trace (loadModel desktop_fail stage_slideIn (widget [model_A] True None)) =
     [StageSlideOut, StatusBarShowLoading, ModelsCreate, StatusBarLoadingError ReloadModel,
      PixiAppMount, MenusReload, TipsReload, ModelsSettingModel, StageReloadStyle,
      PixiAppResize, StatusBarHideLoading, StageSlideIn] \<and>
   drop 12 (trace (run_retry ReloadModel desktop_ok
              (loadModel desktop_fail stage_slideIn (widget [model_A] True None)))) =
     [StageSlideOut, StatusBarShowLoading, ModelsCreate,
      PixiAppMount, MenusReload, TipsReload, ModelsSettingModel, StageReloadStyle,
      PixiAppResize, StatusBarHideLoading, StageSlideIn]"
  by (simp add: scenario_defs)

subsection \<open>The mobile-hidden abort\<close>

text \<open>
  C9 as stated fails on an empty catalog: the workflow returns at the catalog check,
  before the mobile-hidden check, and \<open>statusBar.rest()\<close> is never called. Through
  \<open>loadNextModel\<close> the last status call is then the switching banner.
\<close>

theorem mobileHidden_empty_catalog_no_rest:
  "trace (loadModel mobile_ok stage_slideIn (widget [] False None)) = [StageSlideOut] \<and>
   trace (loadNextModel mobile_ok (widget [] False None)) =
     [StoreUpdateModelCurrentIndex 1, StoreUpdateModelCurrentIndex 0,
      StoreUpdateModelCurrentClothesIndex 0, StatusBarOpenSwitching, StageSlideOut]"
  by (simp add: loadNextModel_def scenario_defs)

text \<open>
  C9, amended. For every run of the workflow on a non-empty catalog in which mobile
  display is disabled and the viewport is classified as mobile at the time of that run:
  the tips are cleared, the stage slides out, \<open>statusBar.rest()\<close> is called, and that is
  all: no load is requested and the completion callback (the enter transition) is not
  invoked, whatever it is. The classification is read anew by each run: a following run
  that finds a non-mobile viewport requests the load and slides the stage in.
\<close>

theorem loadModel_mobileHidden_aborts:
  assumes "models_opt s \<noteq> []" "\<not> mobileDisplay s" "windowIsMobile env"
  shows "loadModel env callback s
           = (on_tips clear s)\<lparr>trace := trace s @ [StageSlideOut, StatusBarRest]\<rparr> \<and>
         ModelsCreate \<notin> set (drop (length (trace s)) (trace (loadModel env callback s))) \<and>
         StageSlideIn \<notin> set (drop (length (trace s)) (trace (loadModel env callback s))) \<and>
         last (trace (loadModel env callback s)) = StatusBarRest \<and>
         (\<not> windowIsMobile env' \<longrightarrow>
            drop (length (trace s) + 2)
              (trace (loadModel env' stage_slideIn (loadModel env callback s)))
            = StageSlideOut # load_events env' (pixiApp s) @ [StageSlideIn])"
proof -
  let ?s' = "(on_tips clear s)\<lparr>trace := trace s @ [StageSlideOut, StatusBarRest]\<rparr>"
  from assms have hidden: "mobileHidden env s" by (simp add: mobileHidden_def)
  have run: "loadModel env callback s = ?s'"
    using assms(1) hidden by (rule loadModel_mobileHidden)
  have again: "drop (length (trace s) + 2) (trace (loadModel env' stage_slideIn ?s'))
      = StageSlideOut # load_events env' (pixiApp s) @ [StageSlideIn]"
    if "\<not> windowIsMobile env'"
  proof -
    have "models_opt ?s' \<noteq> []" using assms(1) by (simp add: on_tips_def)
    moreover have "\<not> mobileHidden env' ?s'" using that by (simp add: mobileHidden_def)
    ultimately have "loadModel env' stage_slideIn ?s' = stage_slideIn
        ((on_tips clear ?s')\<lparr>trace := trace ?s' @ StageSlideOut # load_events env' (pixiApp ?s')\<rparr>)"
      by (rule loadModel_loads)
    then show ?thesis by (simp add: stage_slideIn_def emit_def on_tips_def)
  qed
  show ?thesis unfolding run using again by simp
qed

theorem loadModel_mobileHidden_aborts_witness:
  "trace (loadModel mobile_ok stage_slideIn (widget [model_A] False None))
     = [StageSlideOut, StatusBarRest] \<and>
   drop 2 (trace (loadModel desktop_ok stage_slideIn
                    (loadModel mobile_ok stage_slideIn (widget [model_A] False None))))
     = StageSlideOut # load_events desktop_ok True @ [StageSlideIn]"
proof -
  let ?w = "widget [model_A] False None"
  have catalog: "models_opt ?w \<noteq> []" and policy: "\<not> mobileDisplay ?w"
    and fresh: "trace ?w = []"
    by (simp_all add: widget_def)
  have mobile: "windowIsMobile mobile_ok" and desktop: "\<not> windowIsMobile desktop_ok"
    by (simp_all add: mobile_ok_def desktop_ok_def)
  note run = loadModel_mobileHidden_aborts[OF catalog policy mobile,
      where callback = stage_slideIn and env' = desktop_ok]
  from run have "trace (loadModel mobile_ok stage_slideIn ?w)
      = trace ((on_tips clear ?w)\<lparr>trace := trace ?w @ [StageSlideOut, StatusBarRest]\<rparr>)"
    by simp
  then have first: "trace (loadModel mobile_ok stage_slideIn ?w) = [StageSlideOut, StatusBarRest]"
    by (simp add: fresh)
  from run desktop have "drop (length (trace ?w) + 2)
      (trace (loadModel desktop_ok stage_slideIn (loadModel mobile_ok stage_slideIn ?w)))
      = StageSlideOut # load_events desktop_ok (pixiApp ?w) @ [StageSlideIn]"
    by blast
  then have second: "drop 2
      (trace (loadModel desktop_ok stage_slideIn (loadModel mobile_ok stage_slideIn ?w)))
      = StageSlideOut # load_events desktop_ok True @ [StageSlideIn]"
    by (simp add: widget_def numeral_2_eq_2)
  from first second show ?thesis by (rule conjI)
qed

subsection \<open>The selection invariant\<close>
















end
